theory Spec2Isabelle
  imports Main
begin

section \<open>The service worker of WeatherFlow: caching and offline behaviour\<close>

text \<open>
  The development embeds the service worker script (install, activate and fetch
  listeners, and the handlers \<open>handleApiRequest\<close>, \<open>handleStaticRequest\<close>,
  \<open>handleDynamicRequest\<close>, \<open>updateStaticCache\<close>) as functions over an explicit
  cache storage, an explicit network and an explicit clock.
\<close>

subsection \<open>Module constants\<close>

definition CACHE_NAME :: string where
  "CACHE_NAME = ''weatherflow-v1.0.0''"

definition STATIC_CACHE_URLS :: "string list" where
  "STATIC_CACHE_URLS =
    [''/'',
     ''/index.html'',
     ''/styles.css'',
     ''/js/main.js'',
     ''/js/api.js'',
     ''/js/state.js'',
     ''/js/ui.js'',
     ''/js/charts.js'',
     ''/manifest.webmanifest'',
     ''https://cdn.tailwindcss.com'',
     ''https://cdn.jsdelivr.net/npm/chart.js'',
     ''https://cdn.jsdelivr.net/npm/dayjs@1/dayjs.min.js'',
     ''https://cdn.jsdelivr.net/npm/dayjs@1/plugin/relativeTime.js'']"

text \<open>Durations are milliseconds, as \<open>Date.now()\<close> counts them.\<close>

definition API_CACHE_DURATION :: int where
  "API_CACHE_DURATION = 10 * 60 * 1000"

definition STATIC_CACHE_DURATION :: int where
  "STATIC_CACHE_DURATION = 24 * 60 * 60 * 1000"

text \<open>The names of the two derived caches, \<open>`${CACHE_NAME}-api`\<close> and
  \<open>`${CACHE_NAME}-dynamic`\<close>.\<close>

definition API_CACHE :: string where
  "API_CACHE = CACHE_NAME @ ''-api''"

definition DYNAMIC_CACHE :: string where
  "DYNAMIC_CACHE = CACHE_NAME @ ''-dynamic''"

subsection \<open>Strings: \<open>includes\<close>, \<open>toString\<close>, \<open>parseInt\<close>\<close>

fun starts_with :: "string \<Rightarrow> string \<Rightarrow> bool" where
  "starts_with s [] = True"
| "starts_with [] (p # ps) = False"
| "starts_with (c # cs) (p # ps) = (c = p \<and> starts_with cs ps)"

text \<open>\<open>s.includes(p)\<close>: \<open>p\<close> occurs in \<open>s\<close> at some position.\<close>

fun str_includes :: "string \<Rightarrow> string \<Rightarrow> bool" where
  "str_includes [] p = (p = [])"
| "str_includes (c # cs) p = (starts_with (c # cs) p \<or> str_includes cs p)"

definition digit_char :: "nat \<Rightarrow> char" where
  "digit_char d = char_of (48 + d)"

fun digits :: "nat \<Rightarrow> string" where
  "digits n = (if n < 10 then [digit_char n] else digits (n div 10) @ [digit_char (n mod 10)])"

declare digits.simps [simp del]

text \<open>\<open>Number.prototype.toString()\<close> on an integer value.\<close>

definition toString :: "int \<Rightarrow> string" where
  "toString i = (if i < 0 then CHR ''-'' # digits (nat (- i)) else digits (nat i))"

definition is_ws :: "char \<Rightarrow> bool" where
  "is_ws c = (c \<in> set [CHR '' '', CHR 0x09, CHR 0x0A, CHR 0x0B, CHR 0x0C, CHR 0x0D])"

definition digit_val :: "char \<Rightarrow> nat option" where
  "digit_val c =
    (let k = (of_char c :: nat) in
     if 48 \<le> k \<and> k \<le> 57 then Some (k - 48)
     else if 97 \<le> k \<and> k \<le> 102 then Some (k - 87)
     else if 65 \<le> k \<and> k \<le> 70 then Some (k - 55)
     else None)"

text \<open>A character that is a decimal digit.\<close>

definition is_decimal :: "char \<Rightarrow> bool" where
  "is_decimal c = (48 \<le> (of_char c :: nat) \<and> (of_char c :: nat) \<le> 57)"

text \<open>The value of the longest prefix of digits below the radix.\<close>

fun parse_digits :: "nat \<Rightarrow> nat \<Rightarrow> string \<Rightarrow> nat" where
  "parse_digits r acc [] = acc"
| "parse_digits r acc (c # cs) =
    (case digit_val c of
       None \<Rightarrow> acc
     | Some d \<Rightarrow> if d < r then parse_digits r (acc * r + d) cs else acc)"

text \<open>
  \<open>parseInt(s)\<close> with no radix: leading white space is skipped, a sign is read, a
  \<open>0x\<close> prefix selects radix 16, and the longest prefix of digits is the value; with
  no digit the result is \<open>NaN\<close>, here \<open>None\<close>.
\<close>

definition parseInt :: "string \<Rightarrow> int option" where
  "parseInt s =
    (let t = dropWhile is_ws s;
         neg = starts_with t ''-'';
         u = (if starts_with t ''-'' \<or> starts_with t ''+'' then drop 1 t else t);
         hex = (starts_with u ''0x'' \<or> starts_with u ''0X'');
         r = (if hex then 16 else 10);
         v = (if hex then drop 2 u else u)
     in case v of
          [] \<Rightarrow> None
        | c # _ \<Rightarrow>
            (case digit_val c of
               None \<Rightarrow> None
             | Some d \<Rightarrow>
                 if d < r then Some ((if neg then - 1 else 1) * int (parse_digits r 0 v))
                 else None))"

subsection \<open>Requests, responses, the network\<close>

text \<open>
  A request as the listeners read it: \<open>request.method\<close> (the field
  \<open>req_method\<close>), \<open>request.url\<close> (the absolute URL), the \<open>hostname\<close> of
  \<open>new URL(request.url)\<close>, and the value of \<open>request.headers.get('accept')\<close>.
\<close>

record request =
  req_method :: string
  url :: string
  hostname :: string
  accept :: "string option"

text \<open>Header names are kept in lower case, as the platform normalises them.\<close>

type_synonym headers = "(string \<times> string) list"

record response =
  status :: nat
  statusText :: string
  hdrs :: headers
  body :: string

definition ok :: "response \<Rightarrow> bool" where
  "ok r = (200 \<le> status r \<and> status r \<le> 299)"

definition headers_get :: "headers \<Rightarrow> string \<Rightarrow> string option" where
  "headers_get h name = map_of h name"

text \<open>
  \<open>{...Object.fromEntries(h.entries()), name: v}\<close>: the entry of that name is
  replaced, or added when there is none.
\<close>

fun headers_set :: "headers \<Rightarrow> string \<Rightarrow> string \<Rightarrow> headers" where
  "headers_set [] name v = [(name, v)]"
| "headers_set ((k, w) # h) name v =
    (if k = name then (k, v) # h else (k, w) # headers_set h name v)"

text \<open>\<open>fetch(request)\<close> rejects (transport failure) or resolves with a response of
  any status.\<close>

datatype fetch_result = FetchRejected | FetchResolved response

type_synonym network = "string \<Rightarrow> fetch_result"

datatype js_error =
    TypeError
  | Error string
  | ReferenceError string

text \<open>
  The copy that the handlers store: same body, status and status text, the headers
  with \<open>sw-cache-timestamp\<close> set to \<open>Date.now().toString()\<close>.
\<close>

definition responseWithTimestamp :: "response \<Rightarrow> int \<Rightarrow> response" where
  "responseWithTimestamp r now =
    \<lparr>status = status r, statusText = statusText r,
     hdrs = headers_set (hdrs r) ''sw-cache-timestamp'' (toString now),
     body = body r\<rparr>"

subsection \<open>Cache and CacheStorage\<close>

text \<open>
  A cache maps request URLs to responses (only GET requests reach the handlers).
  The storage is the list of named caches in creation order, which is the order in
  which \<open>caches.keys()\<close> lists them and \<open>caches.match\<close> searches them.
\<close>

type_synonym cache = "(string \<times> response) list"

type_synonym cache_storage = "(string \<times> cache) list"

definition cache_match :: "cache \<Rightarrow> string \<Rightarrow> response option" where
  "cache_match c u = map_of c u"

text \<open>Storing a response under a URL: the entry of that URL is replaced, or added.\<close>

fun put_entry :: "cache \<Rightarrow> string \<Rightarrow> response \<Rightarrow> cache" where
  "put_entry [] u r = [(u, r)]"
| "put_entry ((k, w) # c) u r =
    (if k = u then (k, r) # c else (k, w) # put_entry c u r)"

fun split_on :: "char \<Rightarrow> string \<Rightarrow> string list" where
  "split_on sep [] = [[]]"
| "split_on sep (c # cs) =
    (if c = sep then [] # split_on sep cs
     else (case split_on sep cs of
             [] \<Rightarrow> [[c]]
           | x # xs \<Rightarrow> (c # x) # xs))"

definition strip_ws :: "string \<Rightarrow> string" where
  "strip_ws s =
    rev (dropWhile (\<lambda>c. c = CHR '' '' \<or> c = CHR 0x09)
          (rev (dropWhile (\<lambda>c. c = CHR '' '' \<or> c = CHR 0x09) s)))"

text \<open>A \<open>Vary\<close> header one of whose comma-separated values is \<open>*\<close>.\<close>

definition vary_star :: "headers \<Rightarrow> bool" where
  "vary_star h =
    (case headers_get h ''vary'' of
       None \<Rightarrow> False
     | Some v \<Rightarrow> list_ex (\<lambda>f. strip_ws f = ''*'') (split_on CHR '','' v))"

text \<open>
  The platform's \<open>cache.put(request, response)\<close> rejects with a TypeError, and
  stores nothing, when the scheme of the request URL is neither \<open>http\<close> nor
  \<open>https\<close>, when the status of the response is 206, or when its \<open>Vary\<close> header
  has the value \<open>*\<close>.
\<close>

definition put_refused :: "string \<Rightarrow> response \<Rightarrow> bool" where
  "put_refused u r =
    (\<not> (starts_with u ''http:'' \<or> starts_with u ''https:'')
     \<or> status r = 206
     \<or> vary_star (hdrs r))"

text \<open>
  The handlers call \<open>cache.put\<close> without \<open>await\<close> and without a rejection
  handler: a refused put leaves the cache as it was and the handler goes on.
\<close>

definition cache_put :: "cache \<Rightarrow> string \<Rightarrow> response \<Rightarrow> cache" where
  "cache_put c u r = (if put_refused u r then c else put_entry c u r)"

definition cache_delete :: "cache \<Rightarrow> string \<Rightarrow> cache" where
  "cache_delete c u = filter (\<lambda>(k, w). k \<noteq> u) c"

definition caches_keys :: "cache_storage \<Rightarrow> string list" where
  "caches_keys cs = map fst cs"

text \<open>\<open>caches.open(name)\<close> creates the cache when there is none of that name.\<close>

definition caches_open :: "cache_storage \<Rightarrow> string \<Rightarrow> cache_storage" where
  "caches_open cs name = (if name \<in> set (caches_keys cs) then cs else cs @ [(name, [])])"

definition caches_delete :: "cache_storage \<Rightarrow> string \<Rightarrow> cache_storage" where
  "caches_delete cs name = filter (\<lambda>(n, c). n \<noteq> name) cs"

text \<open>The content of the cache of a name (empty when there is none).\<close>

definition cache_of :: "cache_storage \<Rightarrow> string \<Rightarrow> cache" where
  "cache_of cs name = (case map_of cs name of None \<Rightarrow> [] | Some c \<Rightarrow> c)"

text \<open>An operation on the cache object that \<open>caches.open(name)\<close> returned.\<close>

definition on_cache :: "cache_storage \<Rightarrow> string \<Rightarrow> (cache \<Rightarrow> cache) \<Rightarrow> cache_storage" where
  "on_cache cs name f = map (\<lambda>(n, c). if n = name then (n, f c) else (n, c)) cs"

text \<open>\<open>caches.match(request)\<close>: the first match over all caches, in creation order.\<close>

fun caches_match :: "cache_storage \<Rightarrow> string \<Rightarrow> response option" where
  "caches_match [] u = None"
| "caches_match ((n, c) # cs) u =
    (case cache_match c u of
       Some r \<Rightarrow> Some r
     | None \<Rightarrow> caches_match cs u)"

subsection \<open>The fetch listener: classification\<close>

datatype request_class = Api | Static | Dynamic

text \<open>
  The listener returns without \<open>respondWith\<close> for a method other than GET
  (\<open>None\<close>); otherwise it names the handler that answers.
\<close>

definition classify :: "request \<Rightarrow> request_class option" where
  "classify req =
    (if req_method req \<noteq> ''GET'' then None
     else if str_includes (hostname req) ''open-meteo.com''
            \<or> str_includes (hostname req) ''geocoding-api.open-meteo.com'' then Some Api
     else if list_ex (\<lambda>staticUrl. str_includes (url req) staticUrl) STATIC_CACHE_URLS
       then Some Static
     else Some Dynamic)"

subsection \<open>Freshness\<close>

text \<open>
  \<open>cacheTimestamp && (Date.now() - parseInt(cacheTimestamp)) > API_CACHE_DURATION\<close>:
  a missing or empty header is falsy, and a comparison with \<open>NaN\<close> is false.
\<close>

definition isExpired :: "string option \<Rightarrow> int \<Rightarrow> bool" where
  "isExpired cacheTimestamp now =
    (case cacheTimestamp of
       None \<Rightarrow> False
     | Some ts \<Rightarrow>
         ts \<noteq> [] \<and>
         (case parseInt ts of None \<Rightarrow> False | Some t \<Rightarrow> now - t > API_CACHE_DURATION))"

text \<open>
  \<open>!cacheTimestamp || (Date.now() - parseInt(cacheTimestamp)) > STATIC_CACHE_DURATION\<close>.
\<close>

definition shouldUpdate :: "string option \<Rightarrow> int \<Rightarrow> bool" where
  "shouldUpdate cacheTimestamp now =
    (case cacheTimestamp of
       None \<Rightarrow> True
     | Some ts \<Rightarrow>
         ts = [] \<or>
         (case parseInt ts of None \<Rightarrow> False | Some t \<Rightarrow> now - t > STATIC_CACHE_DURATION))"

subsection \<open>Synthesised responses\<close>

text \<open>
  \<open>new Response(JSON.stringify({error: ..., offline: true}), {status: 503,
  headers: {'Content-Type': 'application/json'}})\<close>.
\<close>

definition offline_json :: string where
  \<open>offline_json = ''{"error":"Network unavailable and no cached data","offline":true}''\<close>

definition api_offline_response :: response where
  "api_offline_response =
    \<lparr>status = 503, statusText = [],
     hdrs = [(''content-type'', ''application/json'')],
     body = offline_json\<rparr>"

text \<open>The template literal of the offline page, line by line.\<close>

definition offline_html :: string where
  \<open>offline_html = concat
    [''<!DOCTYPE html>'', [CHR 0x0A],
     ''        <html>'', [CHR 0x0A],
     ''        <head>'', [CHR 0x0A],
     ''          <title>Offline - WeatherFlow</title>'', [CHR 0x0A],
     ''          <meta name="viewport" content="width=device-width, initial-scale=1.0">'', [CHR 0x0A],
     ''          <style>'', [CHR 0x0A],
     ''            body { font-family: system-ui; text-align: center; padding: 50px; }'', [CHR 0x0A],
     ''            h1 { color: #3B82F6; }'', [CHR 0x0A],
     ''          </style>'', [CHR 0x0A],
     ''        </head>'', [CHR 0x0A],
     ''        <body>'', [CHR 0x0A],
     ''          <h1>You'', [CHR 0x27], ''re offline</h1>'', [CHR 0x0A],
     ''          <p>WeatherFlow requires an internet connection to fetch weather data.</p>'', [CHR 0x0A],
     ''          <button onclick="location.reload()">Try Again</button>'', [CHR 0x0A],
     ''        </body>'', [CHR 0x0A],
     ''        </html>'']\<close>

text \<open>\<open>new Response(html, {headers: {'Content-Type': 'text/html'}})\<close>: the status
  is the default, 200.\<close>

definition offline_page_response :: response where
  "offline_page_response =
    \<lparr>status = 200, statusText = [],
     hdrs = [(''content-type'', ''text/html'')],
     body = offline_html\<rparr>"

text \<open>\<open>new Response('Service Unavailable', {status: 503})\<close>; a text body gets the
  platform's default content type.\<close>

definition unavailable_response :: response where
  "unavailable_response =
    \<lparr>status = 503, statusText = [],
     hdrs = [(''content-type'', ''text/plain;charset=UTF-8'')],
     body = ''Service Unavailable''\<rparr>"

subsection \<open>The request handlers\<close>

text \<open>
  A handler returns the response it resolves with, the cache storage it leaves, and
  the URLs it fetched from the network, in order. Each \<open>try\<close> block is a function
  that returns either the error thrown (with the storage and the fetches so far) or
  the handler's result; the \<open>catch\<close> block continues from the error.
\<close>

type_synonym handled = "response \<times> cache_storage \<times> string list"

type_synonym thrown = "js_error \<times> cache_storage \<times> string list"

definition api_try :: "network \<Rightarrow> int \<Rightarrow> cache_storage \<Rightarrow> request \<Rightarrow> thrown + handled" where
  "api_try net now cs request =
    (case net (url request) of
       FetchRejected \<Rightarrow> Inl (TypeError, cs, [url request])
     | FetchResolved networkResponse \<Rightarrow>
         if ok networkResponse then
           let cs1 = caches_open cs API_CACHE;
               cs2 = on_cache cs1 API_CACHE
                       (\<lambda>cache. cache_put cache (url request)
                                  (responseWithTimestamp networkResponse now))
           in Inr (networkResponse, cs2, [url request])
         else Inl (Error ''Network response not ok'', cs, [url request]))"

definition api_catch :: "int \<Rightarrow> cache_storage \<Rightarrow> request \<Rightarrow> string list \<Rightarrow> handled" where
  "api_catch now cs request fetched =
    (let cs1 = caches_open cs API_CACHE in
     case cache_match (cache_of cs1 API_CACHE) (url request) of
       Some cachedResponse \<Rightarrow>
         if \<not> isExpired (headers_get (hdrs cachedResponse) ''sw-cache-timestamp'') now
         then (cachedResponse, cs1, fetched)
         else (api_offline_response,
               on_cache cs1 API_CACHE (\<lambda>cache. cache_delete cache (url request)),
               fetched)
     | None \<Rightarrow> (api_offline_response, cs1, fetched))"

definition handleApiRequest :: "network \<Rightarrow> int \<Rightarrow> cache_storage \<Rightarrow> request \<Rightarrow> handled" where
  "handleApiRequest net now cs request =
    (case api_try net now cs request of
       Inr result \<Rightarrow> result
     | Inl (error, cs', fetched) \<Rightarrow> api_catch now cs' request fetched)"

text \<open>
  Background refresh of a static asset. It returns the storage it leaves and the
  URLs it fetched; its own \<open>catch\<close> only logs.
\<close>

definition updateStaticCache ::
    "network \<Rightarrow> int \<Rightarrow> cache_storage \<Rightarrow> request \<Rightarrow> cache_storage \<times> string list" where
  "updateStaticCache net now cs request =
    (case net (url request) of
       FetchRejected \<Rightarrow> (cs, [url request])
     | FetchResolved networkResponse \<Rightarrow>
         if ok networkResponse then
           (on_cache (caches_open cs CACHE_NAME) CACHE_NAME
              (\<lambda>cache. cache_put cache (url request)
                         (responseWithTimestamp networkResponse now)),
            [url request])
         else (cs, [url request]))"

text \<open>
  In \<open>handleStaticRequest\<close> the statement
  \<open>event.waitUntil(updateStaticCache(request))\<close> names \<open>event\<close>, which is bound
  neither in the function (its only parameter is \<open>request\<close>) nor at the top level
  of the script (the listeners' \<open>event\<close> parameters are local to the listeners).
  Evaluating the callee \<open>event.waitUntil\<close> throws a ReferenceError before the
  argument \<open>updateStaticCache(request)\<close> is evaluated, and the \<open>try\<close> block is left
  for the \<open>catch\<close> block.
\<close>

definition static_try :: "network \<Rightarrow> int \<Rightarrow> cache_storage \<Rightarrow> request \<Rightarrow> thrown + handled" where
  "static_try net now cs request =
    (case caches_match cs (url request) of
       Some cachedResponse \<Rightarrow>
         if shouldUpdate (headers_get (hdrs cachedResponse) ''sw-cache-timestamp'') now
         then Inl (ReferenceError ''event'', cs, [])
         else Inr (cachedResponse, cs, [])
     | None \<Rightarrow>
         (case net (url request) of
            FetchRejected \<Rightarrow> Inl (TypeError, cs, [url request])
          | FetchResolved networkResponse \<Rightarrow>
              if ok networkResponse then
                Inr (networkResponse,
                     on_cache (caches_open cs CACHE_NAME) CACHE_NAME
                       (\<lambda>cache. cache_put cache (url request)
                                  (responseWithTimestamp networkResponse now)),
                     [url request])
              else Inr (networkResponse, cs, [url request])))"

definition static_catch :: "cache_storage \<Rightarrow> request \<Rightarrow> string list \<Rightarrow> handled" where
  "static_catch cs request fetched =
    (case caches_match cs (url request) of
       Some cachedResponse \<Rightarrow> (cachedResponse, cs, fetched)
     | None \<Rightarrow>
         if (case accept request of None \<Rightarrow> False | Some a \<Rightarrow> str_includes a ''text/html'')
         then (offline_page_response, cs, fetched)
         else (unavailable_response, cs, fetched))"

definition handleStaticRequest :: "network \<Rightarrow> int \<Rightarrow> cache_storage \<Rightarrow> request \<Rightarrow> handled" where
  "handleStaticRequest net now cs request =
    (case static_try net now cs request of
       Inr result \<Rightarrow> result
     | Inl (error, cs', fetched) \<Rightarrow> static_catch cs' request fetched)"

definition dynamic_try :: "network \<Rightarrow> cache_storage \<Rightarrow> request \<Rightarrow> thrown + handled" where
  "dynamic_try net cs request =
    (case net (url request) of
       FetchRejected \<Rightarrow> Inl (TypeError, cs, [url request])
     | FetchResolved networkResponse \<Rightarrow>
         if ok networkResponse then
           Inr (networkResponse,
                on_cache (caches_open cs DYNAMIC_CACHE) DYNAMIC_CACHE
                  (\<lambda>cache. cache_put cache (url request) networkResponse),
                [url request])
         else Inr (networkResponse, cs, [url request]))"

definition dynamic_catch :: "cache_storage \<Rightarrow> request \<Rightarrow> string list \<Rightarrow> handled" where
  "dynamic_catch cs request fetched =
    (case caches_match cs (url request) of
       Some cachedResponse \<Rightarrow> (cachedResponse, cs, fetched)
     | None \<Rightarrow> (unavailable_response, cs, fetched))"

definition handleDynamicRequest :: "network \<Rightarrow> cache_storage \<Rightarrow> request \<Rightarrow> handled" where
  "handleDynamicRequest net cs request =
    (case dynamic_try net cs request of
       Inr result \<Rightarrow> result
     | Inl (error, cs', fetched) \<Rightarrow> dynamic_catch cs' request fetched)"

subsection \<open>Lifecycle: promises over the worker's state\<close>

datatype sw_event = SkipWaiting | CacheDeleted string | ClientsClaimed | ConsoleError

text \<open>The worker's state: the cache storage and what the worker did, in order.\<close>

record sw_state =
  storage :: cache_storage
  trace :: "sw_event list"

datatype 'a settled = Fulfilled 'a | Rejected js_error

type_synonym 'a promise = "sw_state \<Rightarrow> 'a settled \<times> sw_state"

definition resolved :: "'a \<Rightarrow> 'a promise" where
  "resolved a = (\<lambda>s. (Fulfilled a, s))"

text \<open>\<open>p.then(f)\<close>: \<open>f\<close> runs on fulfilment; a rejection passes through.\<close>

definition then_p :: "'a promise \<Rightarrow> ('a \<Rightarrow> 'b promise) \<Rightarrow> 'b promise" where
  "then_p p f = (\<lambda>s. case p s of
                       (Fulfilled a, s') \<Rightarrow> f a s'
                     | (Rejected e, s') \<Rightarrow> (Rejected e, s'))"

text \<open>\<open>p.catch(h)\<close>: \<open>h\<close> runs on rejection, and the promise settles as \<open>h\<close> does.\<close>

definition catch_p :: "'a promise \<Rightarrow> (js_error \<Rightarrow> 'a promise) \<Rightarrow> 'a promise" where
  "catch_p p h = (\<lambda>s. case p s of
                        (Fulfilled a, s') \<Rightarrow> (Fulfilled a, s')
                      | (Rejected e, s') \<Rightarrow> h e s')"

text \<open>\<open>Promise.all\<close> over operations that were started in list order.\<close>

fun promise_all :: "unit promise list \<Rightarrow> unit promise" where
  "promise_all [] = resolved ()"
| "promise_all (p # ps) = then_p p (\<lambda>_. promise_all ps)"

definition caches_open_p :: "string \<Rightarrow> string promise" where
  "caches_open_p name =
    (\<lambda>s. (Fulfilled name, s\<lparr>storage := caches_open (storage s) name\<rparr>))"

text \<open>
  \<open>cache.addAll(urls)\<close>, as the platform defines it: every URL is fetched; when a
  fetch rejects, a response is not ok, or a response is one that \<open>cache.put\<close>
  refuses, the promise rejects with a TypeError and nothing is stored; otherwise
  every response is stored under its URL. \<open>resolve\<close> is the platform's resolution
  of a URL string against the worker's location.
\<close>

fun fetch_all :: "network \<Rightarrow> string list \<Rightarrow> (string \<times> response) list option" where
  "fetch_all net [] = Some []"
| "fetch_all net (u # us) =
    (case net u of
       FetchRejected \<Rightarrow> None
     | FetchResolved r \<Rightarrow>
         if ok r \<and> \<not> put_refused u r then
           (case fetch_all net us of None \<Rightarrow> None | Some rs \<Rightarrow> Some ((u, r) # rs))
         else None)"

definition cache_addAll_p ::
    "network \<Rightarrow> (string \<Rightarrow> string) \<Rightarrow> string \<Rightarrow> string list \<Rightarrow> unit promise" where
  "cache_addAll_p net resolve name urls =
    (\<lambda>s. case fetch_all net (map resolve urls) of
            None \<Rightarrow> (Rejected TypeError, s)
          | Some rs \<Rightarrow>
              (Fulfilled (),
               s\<lparr>storage := on_cache (storage s) name
                                (\<lambda>cache. fold (\<lambda>(u, r) c. put_entry c u r) rs cache)\<rparr>))"

definition skipWaiting_p :: "unit promise" where
  "skipWaiting_p = (\<lambda>s. (Fulfilled (), s\<lparr>trace := trace s @ [SkipWaiting]\<rparr>))"

definition console_error_p :: "unit promise" where
  "console_error_p = (\<lambda>s. (Fulfilled (), s\<lparr>trace := trace s @ [ConsoleError]\<rparr>))"

definition caches_keys_p :: "string list promise" where
  "caches_keys_p = (\<lambda>s. (Fulfilled (caches_keys (storage s)), s))"

definition caches_delete_p :: "string \<Rightarrow> unit promise" where
  "caches_delete_p name =
    (\<lambda>s. (Fulfilled (),
           s\<lparr>storage := caches_delete (storage s) name,
             trace := trace s @ [CacheDeleted name]\<rparr>))"

definition clients_claim_p :: "unit promise" where
  "clients_claim_p = (\<lambda>s. (Fulfilled (), s\<lparr>trace := trace s @ [ClientsClaimed]\<rparr>))"

subsection \<open>The install listener\<close>

text \<open>The promise that the install listener hands to \<open>event.waitUntil\<close>.\<close>

definition install_promise :: "network \<Rightarrow> (string \<Rightarrow> string) \<Rightarrow> unit promise" where
  "install_promise net resolve =
    catch_p
      (then_p
        (then_p (caches_open_p CACHE_NAME)
                (\<lambda>cache. cache_addAll_p net resolve cache STATIC_CACHE_URLS))
        (\<lambda>_. skipWaiting_p))
      (\<lambda>error. console_error_p)"

text \<open>
  \<open>event.waitUntil(p)\<close> in an install event: the worker is installed when \<open>p\<close>
  fulfils, and the installation fails (the worker is discarded) when \<open>p\<close> rejects.
\<close>

datatype install_result = Installed | InstallFailed

definition onInstall ::
    "network \<Rightarrow> (string \<Rightarrow> string) \<Rightarrow> sw_state \<Rightarrow> install_result \<times> sw_state" where
  "onInstall net resolve s =
    (case install_promise net resolve s of
       (Fulfilled _, s') \<Rightarrow> (Installed, s')
     | (Rejected e, s') \<Rightarrow> (InstallFailed, s'))"

subsection \<open>The activate listener\<close>

definition activate_promise :: "unit promise" where
  "activate_promise =
    then_p
      (then_p caches_keys_p
        (\<lambda>cacheNames. promise_all
           (map (\<lambda>cacheName. if cacheName \<noteq> CACHE_NAME then caches_delete_p cacheName
                              else resolved ())
                cacheNames)))
      (\<lambda>_. clients_claim_p)"

definition onActivate :: "sw_state \<Rightarrow> sw_state" where
  "onActivate s = snd (activate_promise s)"

subsection \<open>Example inputs\<close>

definition map_request :: request where
  "map_request =
    \<lparr>req_method = ''GET'', url = ''https://weatherflow.app/js/ui.js.map'',
     hostname = ''weatherflow.app'', accept = None\<rparr>"

definition forecast_request :: request where
  "forecast_request =
    \<lparr>req_method = ''GET'', url = ''https://api.open-meteo.com/v1/forecast?latitude=52.52'',
     hostname = ''api.open-meteo.com'', accept = None\<rparr>"

definition styles_request :: request where
  "styles_request =
    \<lparr>req_method = ''GET'', url = ''https://weatherflow.app/styles.css'',
     hostname = ''weatherflow.app'', accept = Some ''text/css,*/*;q=0.1''\<rparr>"

definition stale_styles :: response where
  "stale_styles =
    \<lparr>status = 200, statusText = ''OK'',
     hdrs = [(''content-type'', ''text/css''), (''sw-cache-timestamp'', ''1730000000000'')],
     body = ''body { color: black; }''\<rparr>"

definition new_styles :: response where
  "new_styles =
    \<lparr>status = 200, statusText = ''OK'',
     hdrs = [(''content-type'', ''text/css'')],
     body = ''body { color: navy; }''\<rparr>"

definition not_found :: response where
  "not_found =
    \<lparr>status = 404, statusText = ''Not Found'',
     hdrs = [(''content-type'', ''text/plain'')],
     body = ''404 page not found''\<rparr>"

definition stale_storage :: cache_storage where
  "stale_storage = [(CACHE_NAME, [(''https://weatherflow.app/styles.css'', stale_styles)])]"

definition site_resolve :: "string \<Rightarrow> string" where
  "site_resolve u = (if starts_with u ''/'' then ''https://weatherflow.app'' @ u else u)"

definition styles_down :: network where
  "styles_down u =
    (if u = ''https://weatherflow.app/styles.css'' then FetchRejected
     else FetchResolved new_styles)"

definition forecast_ok :: response where
  "forecast_ok =
    \<lparr>status = 200, statusText = ''OK'',
     hdrs = [(''content-type'', ''application/json'')],
     body = ''{temperature_2m:[11.4,12.0]}''\<rparr>"

definition forecast_vary :: response where
  "forecast_vary =
    \<lparr>status = 200, statusText = ''OK'',
     hdrs = [(''content-type'', ''application/json''), (''vary'', ''*'')],
     body = ''{temperature_2m:[9.8,10.1]}''\<rparr>"

definition forecast_partial :: response where
  "forecast_partial =
    \<lparr>status = 206, statusText = ''Partial Content'',
     hdrs = [(''content-type'', ''application/json''),
             (''content-range'', ''bytes 0-15/28'')],
     body = ''{temperature_2m:''\<rparr>"

definition cached_forecast :: response where
  "cached_forecast = responseWithTimestamp forecast_ok 1730000000000"

definition api_storage :: cache_storage where
  "api_storage =
    [(CACHE_NAME, []),
     (API_CACHE, [(''https://api.open-meteo.com/v1/forecast?latitude=52.52'', cached_forecast)])]"

definition dynamic_storage :: cache_storage where
  "dynamic_storage =
    [(CACHE_NAME, []),
     (DYNAMIC_CACHE, [(''https://weatherflow.app/styles.css'', new_styles)])]"

section \<open>Properties\<close>

text \<open>
  Apart from the puts that the platform refuses by rule (\<open>put_refused\<close>), reads
  and writes of the cache storage are taken to succeed, and each handler is
  followed on its own, with no other request interleaved between its steps.
\<close>

subsection \<open>\<open>parseInt\<close> reads back what \<open>toString\<close> wrote\<close>

lemma is_decimal_digit_char: "d < 10 \<Longrightarrow> is_decimal (digit_char d)"
  by (simp add: is_decimal_def digit_char_def)

lemma digit_val_digit_char: "d < 10 \<Longrightarrow> digit_val (digit_char d) = Some d"
  by (simp add: digit_val_def digit_char_def Let_def)

lemma is_decimal_digit_val: "is_decimal c \<Longrightarrow> \<exists>d<10. digit_val c = Some d"
  by (auto simp: is_decimal_def digit_val_def Let_def)

lemma is_decimal_not_ws: "is_decimal c \<Longrightarrow> \<not> is_ws c"
  by (auto simp: is_decimal_def is_ws_def)

lemma is_decimal_not_sign: "is_decimal c \<Longrightarrow> c \<noteq> CHR ''-'' \<and> c \<noteq> CHR ''+'' \<and> c \<noteq> CHR ''x'' \<and> c \<noteq> CHR ''X''"
  by (auto simp: is_decimal_def)

lemma digits_is_decimal: "\<forall>c \<in> set (digits n). is_decimal c"
proof (induction n rule: digits.induct)
  case (1 n)
  show ?case
  proof (cases "n < 10")
    case True
    then show ?thesis by (subst digits.simps) (simp add: is_decimal_digit_char)
  next
    case False
    have "n mod 10 < 10" by simp
    with False 1 show ?thesis by (subst digits.simps) (simp add: is_decimal_digit_char)
  qed
qed

lemma digits_nonempty: "digits n \<noteq> []"
  by (subst digits.simps) simp

lemma parse_digits_append:
  "\<forall>c \<in> set xs. is_decimal c \<Longrightarrow> parse_digits 10 acc (xs @ ys) = parse_digits 10 (parse_digits 10 acc xs) ys"
proof (induction xs arbitrary: acc)
  case Nil
  then show ?case by simp
next
  case (Cons c xs)
  from Cons.prems obtain d where "d < 10" "digit_val c = Some d"
    using is_decimal_digit_val by fastforce
  with Cons show ?case by simp
qed

lemma parse_digits_digits: "parse_digits 10 0 (digits n) = n"
proof (induction n rule: digits.induct)
  case (1 n)
  show ?case
  proof (cases "n < 10")
    case True
    then show ?thesis by (subst digits.simps) (simp add: digit_val_digit_char)
  next
    case False
    have m: "n mod 10 < 10" by simp
    have "parse_digits 10 0 (digits (n div 10) @ [digit_char (n mod 10)])
        = parse_digits 10 (parse_digits 10 0 (digits (n div 10))) [digit_char (n mod 10)]"
      by (rule parse_digits_append) (rule digits_is_decimal)
    also have "\<dots> = (n div 10) * 10 + n mod 10"
      using 1 False m by (simp add: digit_val_digit_char)
    also have "\<dots> = n" by simp
    finally show ?thesis using False by (subst digits.simps) simp
  qed
qed

lemma starts_with_0x: "starts_with s [a, b] \<Longrightarrow> b \<in> set s"
  by (cases s; cases "tl s") auto

lemma parseInt_unsigned:
  assumes "s = c # cs" "\<forall>c \<in> set s. is_decimal c"
  shows "parseInt s = Some (int (parse_digits 10 0 s))"
proof -
  have c: "is_decimal c" using assms by simp
  have ws: "dropWhile is_ws s = s"
    using assms(1) c is_decimal_not_ws by simp
  have sg: "\<not> starts_with s ''-''" "\<not> starts_with s ''+''"
    using assms(1) c is_decimal_not_sign by auto
  have nx: "CHR ''x'' \<notin> set s" "CHR ''X'' \<notin> set s"
    using assms(2) is_decimal_not_sign by blast+
  have hx: "\<not> starts_with s ''0x''" "\<not> starts_with s ''0X''"
    using nx starts_with_0x [of s "CHR ''0''" "CHR ''x''"]
      starts_with_0x [of s "CHR ''0''" "CHR ''X''"] by auto
  obtain d where d: "d < 10" "digit_val c = Some d"
    using c is_decimal_digit_val by blast
  have "parseInt s = (case s of [] \<Rightarrow> None | c # _ \<Rightarrow>
            (case digit_val c of None \<Rightarrow> None
             | Some d \<Rightarrow> if d < 10 then Some (int (parse_digits 10 0 s)) else None))"
    by (simp add: parseInt_def Let_def ws sg hx split: list.splits option.splits)
  also have "\<dots> = Some (int (parse_digits 10 0 s))"
    by (simp only: assms(1) list.case d option.case if_True)
  finally show ?thesis .
qed

lemma parseInt_digits: "parseInt (digits n) = Some (int n)"
proof -
  obtain c cs where s: "digits n = c # cs"
    using digits_nonempty by (cases "digits n") auto
  show ?thesis
    using parseInt_unsigned [OF s digits_is_decimal] by (simp add: parse_digits_digits)
qed

lemma parseInt_toString: "parseInt (toString i) = Some i"
proof (cases "i < 0")
  case False
  then show ?thesis by (simp add: toString_def parseInt_digits)
next
  case True
  define n where "n = nat (- i)"
  obtain c cs where s: "digits n = c # cs"
    using digits_nonempty by (cases "digits n") auto
  have all: "\<forall>c \<in> set (digits n). is_decimal c" by (rule digits_is_decimal)
  then have c: "is_decimal c" using s by simp
  have nx: "CHR ''x'' \<notin> set (digits n)" "CHR ''X'' \<notin> set (digits n)"
    using all is_decimal_not_sign by blast+
  have hx: "\<not> starts_with (digits n) ''0x''" "\<not> starts_with (digits n) ''0X''"
    using nx starts_with_0x [of "digits n" "CHR ''0''" "CHR ''x''"]
      starts_with_0x [of "digits n" "CHR ''0''" "CHR ''X''"] by auto
  obtain d where d: "d < 10" "digit_val c = Some d"
    using c is_decimal_digit_val by blast
  have "parseInt (CHR ''-'' # digits n) = (case digits n of [] \<Rightarrow> None | c # _ \<Rightarrow>
            (case digit_val c of None \<Rightarrow> None
             | Some d \<Rightarrow> if d < 10 then Some (- int (parse_digits 10 0 (digits n))) else None))"
    by (simp add: parseInt_def Let_def hx is_ws_def split: list.splits option.splits)
  also have "\<dots> = Some (- int n)"
    by (simp only: s list.case d option.case if_True) (simp only: s [symmetric] parse_digits_digits)
  finally show ?thesis using True by (simp add: toString_def n_def)
qed

lemma toString_nonempty: "toString i \<noteq> []"
  by (simp add: toString_def digits_nonempty)

lemma parseInt_example: "parseInt ''1730000000000'' = Some 1730000000000"
  by (simp add: parseInt_def digit_val_def is_ws_def Let_def)

subsection \<open>\<open>includes\<close> is the substring relation\<close>

lemma starts_with_iff: "starts_with s p \<longleftrightarrow> (\<exists>b. s = p @ b)"
  by (induction s p rule: starts_with.induct) auto

lemma str_includes_iff: "str_includes s p \<longleftrightarrow> (\<exists>a b. s = a @ p @ b)"
proof (induction s)
  case Nil
  then show ?case by auto
next
  case (Cons c cs)
  show ?case
  proof
    assume "str_includes (c # cs) p"
    then consider "starts_with (c # cs) p" | "str_includes cs p" by auto
    then show "\<exists>a b. c # cs = a @ p @ b"
    proof cases
      case 1
      then obtain b where "c # cs = p @ b" using starts_with_iff by blast
      then have "c # cs = [] @ p @ b" by simp
      then show ?thesis by blast
    next
      case 2
      then obtain a b where "cs = a @ p @ b" using Cons.IH by blast
      then have "c # cs = (c # a) @ p @ b" by simp
      then show ?thesis by blast
    qed
  next
    assume "\<exists>a b. c # cs = a @ p @ b"
    then obtain a b where ab: "c # cs = a @ p @ b" by blast
    show "str_includes (c # cs) p"
    proof (cases a)
      case Nil
      then have "starts_with (c # cs) p" using ab starts_with_iff by auto
      then show ?thesis by simp
    next
      case (Cons x a')
      then have "cs = a' @ p @ b" using ab by simp
      then have "str_includes cs p" using Cons.IH by blast
      then show ?thesis by simp
    qed
  qed
qed

lemma geocoding_host: "str_includes h ''geocoding-api.open-meteo.com'' \<Longrightarrow> str_includes h ''open-meteo.com''"
proof -
  assume "str_includes h ''geocoding-api.open-meteo.com''"
  then obtain a b where "h = a @ ''geocoding-api.open-meteo.com'' @ b"
    using str_includes_iff by blast
  then have "h = (a @ ''geocoding-api.'') @ ''open-meteo.com'' @ b" by simp
  then show ?thesis using str_includes_iff by blast
qed

subsection \<open>Cache storage and headers\<close>

lemma map_of_put_entry: "map_of (put_entry c u r) = (map_of c)(u \<mapsto> r)"
  by (induction c u r rule: put_entry.induct) auto

lemma cache_match_put:
  "\<not> put_refused u r \<Longrightarrow> cache_match (cache_put c u r) u = Some r"
  by (simp add: cache_match_def cache_put_def map_of_put_entry)

lemma cache_put_refused: "put_refused u r \<Longrightarrow> cache_put c u r = c"
  by (simp add: cache_put_def)

lemma headers_get_set_other:
  "k \<noteq> name \<Longrightarrow> headers_get (headers_set h name v) k = headers_get h k"
  by (induction h name v rule: headers_set.induct) (auto simp: headers_get_def)

lemma put_refused_timestamp:
  "put_refused u (responseWithTimestamp r now) = put_refused u r"
  by (simp add: put_refused_def vary_star_def responseWithTimestamp_def headers_get_set_other)

lemma on_cache_id: "on_cache cs name (\<lambda>cache. cache) = cs"
  by (induction cs) (auto simp: on_cache_def)

lemma cache_match_delete: "cache_match (cache_delete c u) u = None"
  by (induction c) (auto simp: cache_match_def cache_delete_def)

lemma map_of_on_cache: "map_of (on_cache cs name f) name = map_option f (map_of cs name)"
  by (induction cs) (auto simp: on_cache_def)

lemma map_of_caches_open: "map_of (caches_open cs name) name = Some (cache_of cs name)"
proof (cases "name \<in> set (caches_keys cs)")
  case True
  then obtain c where "map_of cs name = Some c"
    by (metis caches_keys_def map_of_eq_None_iff not_Some_eq set_map)
  with True show ?thesis by (simp add: caches_open_def cache_of_def)
next
  case False
  then have "map_of cs name = None"
    by (simp add: caches_keys_def map_of_eq_None_iff)
  with False show ?thesis by (simp add: caches_open_def cache_of_def map_add_def)
qed

lemma cache_of_on_open: "cache_of (on_cache (caches_open cs name) name f) name = f (cache_of cs name)"
  by (simp add: cache_of_def map_of_on_cache map_of_caches_open)

lemma cache_of_open: "cache_of (caches_open cs name) name = cache_of cs name"
  by (simp add: cache_of_def map_of_caches_open)

lemma headers_get_set: "headers_get (headers_set h name v) name = Some v"
  by (induction h name v rule: headers_set.induct) (auto simp: headers_get_def)

lemma caches_match_first:
  assumes "\<forall>(m, d) \<in> set pre. cache_match d u = None" "cache_match c u = Some e"
  shows "caches_match (pre @ (n, c) # post) u = Some e"
  using assms by (induction pre) auto

lemma api_failure_catch:
  assumes "net (url req) = FetchRejected \<or> (\<exists>r. net (url req) = FetchResolved r \<and> \<not> ok r)"
  shows "handleApiRequest net now cs req = api_catch now cs req [url req]"
  using assms by (auto simp: handleApiRequest_def api_try_def)

text \<open>The two freshness tests on a header that \<open>toString\<close> wrote.\<close>

lemma isExpired_toString:
  "isExpired (Some (toString t)) now = (now - t > API_CACHE_DURATION)"
  by (simp add: isExpired_def parseInt_toString toString_nonempty)

lemma shouldUpdate_toString:
  "shouldUpdate (Some (toString t)) now = (now - t > STATIC_CACHE_DURATION)"
  by (simp add: shouldUpdate_def parseInt_toString toString_nonempty)

subsection \<open>Install\<close>

lemma fetch_all_None_iff:
  "fetch_all net us = None \<longleftrightarrow>
     (\<exists>u \<in> set us. \<not> (\<exists>r. net u = FetchResolved r \<and> ok r \<and> \<not> put_refused u r))"
  by (induction us) (auto split: fetch_result.splits option.splits)

text \<open>
  Claim C1. The claim asks that a failed prefetch makes the install fail. In the
  code the chain handed to \<open>event.waitUntil\<close> ends in a \<open>catch\<close> whose handler
  logs ``Install failed'' and returns: when fetching any URL of the manifest fails,
  the promise still fulfils, so the worker is installed; \<open>skipWaiting\<close> is not
  called and the static cache has been opened but nothing was added to it.
\<close>

theorem install_failure_swallowed:
  assumes "u \<in> set STATIC_CACHE_URLS"
    and "net (resolve u) = FetchRejected \<or> (\<exists>r. net (resolve u) = FetchResolved r \<and> \<not> ok r)"
  shows "onInstall net resolve s =
    (Installed, s\<lparr>storage := caches_open (storage s) CACHE_NAME,
                  trace := trace s @ [ConsoleError]\<rparr>)"
proof -
  have "\<not> (\<exists>r. net (resolve u) = FetchResolved r \<and> ok r)"
    using assms(2) by auto
  then have "fetch_all net (map resolve STATIC_CACHE_URLS) = None"
    using assms(1) unfolding fetch_all_None_iff by auto
  then have "cache_addAll_p net resolve CACHE_NAME STATIC_CACHE_URLS s' = (Rejected TypeError, s')"
    for s'
    by (simp add: cache_addAll_p_def)
  then show ?thesis
    by (simp add: onInstall_def install_promise_def catch_p_def then_p_def caches_open_p_def
        console_error_p_def)
qed

theorem install_failure_swallowed_witness:
  "''/styles.css'' \<in> set STATIC_CACHE_URLS
   \<and> styles_down (site_resolve ''/styles.css'') = FetchRejected
   \<and> onInstall styles_down site_resolve \<lparr>storage = [], trace = []\<rparr> =
       (Installed, \<lparr>storage = [(CACHE_NAME, [])], trace = [ConsoleError]\<rparr>)"
proof -
  have m: "''/styles.css'' \<in> set STATIC_CACHE_URLS"
    by (simp add: STATIC_CACHE_URLS_def)
  have f: "styles_down (site_resolve ''/styles.css'') = FetchRejected"
    by (simp add: site_resolve_def styles_down_def)
  then have f': "styles_down (site_resolve ''/styles.css'') = FetchRejected
      \<or> (\<exists>r. styles_down (site_resolve ''/styles.css'') = FetchResolved r \<and> \<not> ok r)"
    by simp
  show ?thesis
    using m f install_failure_swallowed
        [of "''/styles.css''" styles_down site_resolve "\<lparr>storage = [], trace = []\<rparr>", OF m f']
    by (simp add: caches_open_def caches_keys_def)
qed

subsection \<open>Static requests\<close>

text \<open>
  Claim C2. The claim asks for a background refresh of a stale static entry. At a
  concrete input (an entry stored 25 hours before the request, a network that
  answers with a new body) the handler returns the stale entry, fetches nothing
  and leaves the storage as it was, so the next request returns the stale body
  again: the statement that would start \<open>updateStaticCache\<close> throws before the
  call. The last conjunct is what \<open>updateStaticCache\<close> does when it is run on the
  same input.
\<close>

theorem static_refresh_never_issued:
  "classify styles_request = Some Static
   \<and> ok new_styles
   \<and> body new_styles \<noteq> body stale_styles
   \<and> caches_match stale_storage (url styles_request) = Some stale_styles
   \<and> shouldUpdate (headers_get (hdrs stale_styles) ''sw-cache-timestamp'') 1730090000000
   \<and> handleStaticRequest (\<lambda>u. FetchResolved new_styles) 1730090000000 stale_storage
        styles_request = (stale_styles, stale_storage, [])
   \<and> handleStaticRequest (\<lambda>u. FetchResolved new_styles) 1730090000001 stale_storage
        styles_request = (stale_styles, stale_storage, [])
   \<and> caches_match
         (fst (updateStaticCache (\<lambda>u. FetchResolved new_styles) 1730090000000 stale_storage
                 styles_request))
         (url styles_request) = Some (responseWithTimestamp new_styles 1730090000000)"
proof -
  have c: "classify styles_request = Some Static"
    by (simp add: classify_def styles_request_def STATIC_CACHE_URLS_def)
  have k: "ok new_styles" by (simp add: ok_def new_styles_def)
  have b: "body new_styles \<noteq> body stale_styles"
    by (simp add: new_styles_def stale_styles_def)
  have m: "caches_match stale_storage (url styles_request) = Some stale_styles"
    by (simp add: stale_storage_def styles_request_def cache_match_def)
  have u: "shouldUpdate (headers_get (hdrs stale_styles) ''sw-cache-timestamp'') 1730090000000"
    by (simp add: shouldUpdate_def headers_get_def stale_styles_def parseInt_example
        STATIC_CACHE_DURATION_def)
  have u': "shouldUpdate (headers_get (hdrs stale_styles) ''sw-cache-timestamp'') 1730090000001"
    by (simp add: shouldUpdate_def headers_get_def stale_styles_def parseInt_example
        STATIC_CACHE_DURATION_def)
  have h: "handleStaticRequest (\<lambda>u. FetchResolved new_styles) 1730090000000 stale_storage
        styles_request = (stale_styles, stale_storage, [])"
    by (simp add: handleStaticRequest_def static_try_def static_catch_def m u)
  have h': "handleStaticRequest (\<lambda>u. FetchResolved new_styles) 1730090000001 stale_storage
        styles_request = (stale_styles, stale_storage, [])"
    by (simp add: handleStaticRequest_def static_try_def static_catch_def m u')
  have r: "caches_match
         (fst (updateStaticCache (\<lambda>u. FetchResolved new_styles) 1730090000000 stale_storage
                 styles_request))
         (url styles_request) = Some (responseWithTimestamp new_styles 1730090000000)"
  proof -
    have a: "\<not> put_refused ''https://weatherflow.app/styles.css''
               (responseWithTimestamp new_styles 1730090000000)"
      unfolding put_refused_timestamp
      by (simp add: put_refused_def vary_star_def headers_get_def new_styles_def)
    show ?thesis
      using a
      by (simp add: updateStaticCache_def k stale_storage_def caches_open_def caches_keys_def
          on_cache_def styles_request_def cache_match_def cache_put_def)
  qed
  show ?thesis using c k b m u h h' r by blast
qed

text \<open>
  Claim C9. A static-class request that finds an entry in the cache storage
  resolves with exactly that entry, whatever its age, without any fetch and
  without changing the storage.
\<close>

theorem static_hit_returns_entry:
  assumes "caches_match cs (url req) = Some e"
  shows "handleStaticRequest net now cs req = (e, cs, [])"
  using assms by (simp add: handleStaticRequest_def static_try_def static_catch_def)

theorem static_hit_returns_entry_witness:
  "caches_match stale_storage (url styles_request) = Some stale_styles
   \<and> handleStaticRequest (\<lambda>u. FetchResolved new_styles) 1730090000000 stale_storage
        styles_request = (stale_styles, stale_storage, [])"
proof -
  have m: "caches_match stale_storage (url styles_request) = Some stale_styles"
    by (simp add: stale_storage_def styles_request_def cache_match_def)
  show ?thesis using m static_hit_returns_entry [OF m] by simp
qed

subsection \<open>Classification\<close>

text \<open>
  Claim C3, as the code has it. For a GET request the class is api when the
  hostname contains \<open>open-meteo.com\<close> as a substring (the second test, for
  \<open>geocoding-api.open-meteo.com\<close>, is subsumed by the first); otherwise static when
  the request URL contains some entry of \<open>STATIC_CACHE_URLS\<close> as a substring;
  otherwise dynamic.
\<close>

theorem classify_by_substring:
  assumes "req_method req = ''GET''"
  shows "classify req = Some
     (if \<exists>a b. hostname req = a @ ''open-meteo.com'' @ b then Api
      else if \<exists>u \<in> set STATIC_CACHE_URLS. \<exists>a b. url req = a @ u @ b then Static
      else Dynamic)"
proof -
  have h: "(\<exists>a b. hostname req = a @ ''open-meteo.com'' @ b)
      = str_includes (hostname req) ''open-meteo.com''"
    by (simp only: str_includes_iff)
  have u: "(\<exists>u \<in> set STATIC_CACHE_URLS. \<exists>a b. url req = a @ u @ b)
      = list_ex (\<lambda>staticUrl. str_includes (url req) staticUrl) STATIC_CACHE_URLS"
    by (simp only: list_ex_iff str_includes_iff)
  show ?thesis
    unfolding h u using assms geocoding_host [of "hostname req"]
    by (auto simp: classify_def)
qed

theorem classify_by_substring_witness:
  "req_method forecast_request = ''GET'' \<and>
   classify forecast_request = Some
     (if \<exists>a b. hostname forecast_request = a @ ''open-meteo.com'' @ b then Api
      else if \<exists>u \<in> set STATIC_CACHE_URLS. \<exists>a b. url forecast_request = a @ u @ b then Static
      else Dynamic)"
proof -
  have m: "req_method forecast_request = ''GET''" by (simp add: forecast_request_def)
  show ?thesis using m classify_by_substring [OF m] by simp
qed

text \<open>
  Claim C3 as stated fails: a URL that is not a member of the manifest, on a host
  that is not a data provider, is classified static, because it contains the
  manifest entry \<open>/js/ui.js\<close>.
\<close>

theorem classify_membership_counterexample:
  "\<not> str_includes (hostname map_request) ''open-meteo.com''
   \<and> \<not> str_includes (hostname map_request) ''geocoding-api.open-meteo.com''
   \<and> url map_request \<notin> set STATIC_CACHE_URLS
   \<and> classify map_request = Some Static"
  by (simp add: map_request_def classify_def STATIC_CACHE_URLS_def)

subsection \<open>Activate\<close>

lemma delete_old_caches:
  "promise_all (map (\<lambda>cacheName. if cacheName \<noteq> CACHE_NAME then caches_delete_p cacheName
                                   else resolved ()) ns) s =
   (Fulfilled (),
    s\<lparr>storage := filter (\<lambda>(n, c). n = CACHE_NAME \<or> n \<notin> set ns) (storage s),
      trace := trace s @ map CacheDeleted (filter (\<lambda>n. n \<noteq> CACHE_NAME) ns)\<rparr>)"
proof (induction ns arbitrary: s)
  case Nil
  then show ?case by (simp add: resolved_def)
next
  case (Cons a ns)
  have f: "filter (\<lambda>(n, c). n = CACHE_NAME \<or> n \<notin> set ns) (caches_delete cs a)
         = filter (\<lambda>(n, c). n = CACHE_NAME \<or> n \<notin> set (a # ns)) cs"
    if "a \<noteq> CACHE_NAME" for cs
    using that unfolding caches_delete_def filter_filter
    by (intro filter_cong) auto
  have g: "filter (\<lambda>(n, c). n = CACHE_NAME \<or> n \<notin> set ns) cs
         = filter (\<lambda>(n, c). n = CACHE_NAME \<or> n \<notin> set (a # ns)) cs"
    if "a = CACHE_NAME" for cs
    using that by (intro filter_cong) auto
  show ?case
  proof (cases "a = CACHE_NAME")
    case True
    then show ?thesis using Cons.IH [of s] g [OF True, of "storage s"]
      by (simp add: then_p_def resolved_def)
  next
    case False
    then show ?thesis
      using Cons.IH [of "s\<lparr>storage := caches_delete (storage s) a,
             trace := trace s @ [CacheDeleted a]\<rparr>"] f [OF False, of "storage s"]
      by (simp add: then_p_def caches_delete_p_def)
  qed
qed

lemma keep_static_only:
  "filter (\<lambda>(n, c). n = CACHE_NAME \<or> n \<notin> set (map fst cs)) cs
   = filter (\<lambda>(n, c). n = CACHE_NAME) cs"
  by (intro filter_cong) force+

text \<open>
  Claim C4. Activation deletes every cache whose name differs from \<open>CACHE_NAME\<close>
  and then claims the clients, in that order. The only cache kept is the static
  one: the api and dynamic caches of the activating version, \<open>API_CACHE\<close> and
  \<open>DYNAMIC_CACHE\<close>, are deleted with the caches of other versions.
\<close>

theorem activate_keeps_only_static_cache:
  "storage (onActivate s) = filter (\<lambda>(n, c). n = CACHE_NAME) (storage s)
   \<and> trace (onActivate s)
       = trace s @ map CacheDeleted (filter (\<lambda>n. n \<noteq> CACHE_NAME) (caches_keys (storage s)))
           @ [ClientsClaimed]
   \<and> API_CACHE \<notin> set (caches_keys (storage (onActivate s)))
   \<and> DYNAMIC_CACHE \<notin> set (caches_keys (storage (onActivate s)))
   \<and> onActivate \<lparr>storage = [(''weatherflow-v0.9.0'', c0), (CACHE_NAME, c1), (API_CACHE, c2),
                              (DYNAMIC_CACHE, c3)], trace = []\<rparr>
       = \<lparr>storage = [(CACHE_NAME, c1)],
          trace = [CacheDeleted ''weatherflow-v0.9.0'', CacheDeleted API_CACHE,
                   CacheDeleted DYNAMIC_CACHE, ClientsClaimed]\<rparr>"
proof -
  have a: "onActivate s =
     s\<lparr>storage := filter (\<lambda>(n, c). n = CACHE_NAME) (storage s),
       trace := trace s @ map CacheDeleted (filter (\<lambda>n. n \<noteq> CACHE_NAME) (caches_keys (storage s)))
           @ [ClientsClaimed]\<rparr>" for s
  proof -
    have p: "promise_all (map (\<lambda>cacheName. if cacheName \<noteq> CACHE_NAME
                then caches_delete_p cacheName else resolved ()) (caches_keys (storage s))) s =
       (Fulfilled (),
        s\<lparr>storage := filter (\<lambda>(n, c). n = CACHE_NAME) (storage s),
          trace := trace s @ map CacheDeleted
                    (filter (\<lambda>n. n \<noteq> CACHE_NAME) (caches_keys (storage s)))\<rparr>)"
      by (simp only: delete_old_caches caches_keys_def keep_static_only)
    show ?thesis
      unfolding onActivate_def activate_promise_def then_p_def caches_keys_p_def
      by (simp add: p clients_claim_p_def)
  qed
  have n: "API_CACHE \<noteq> CACHE_NAME" "DYNAMIC_CACHE \<noteq> CACHE_NAME"
    by (simp_all add: API_CACHE_def DYNAMIC_CACHE_def)
  have v: "''weatherflow-v0.9.0'' \<noteq> CACHE_NAME" by (simp add: CACHE_NAME_def)
  have 1: "API_CACHE \<notin> set (caches_keys (storage (onActivate s)))"
    using n by (auto simp: a caches_keys_def)
  have 2: "DYNAMIC_CACHE \<notin> set (caches_keys (storage (onActivate s)))"
    using n by (auto simp: a caches_keys_def)
  show ?thesis using n v 1 2 by (simp add: a caches_keys_def)
qed

subsection \<open>Responses that are not ok\<close>

text \<open>
  Claim C5, as the code has it. For an api request a completed fetch whose status
  is not 2xx gives the same result as a transport failure. For a static request
  that misses the cache, and for a dynamic request, such a response is returned to
  the caller as it is, with nothing stored, while a transport failure leads to the
  cache lookup and the synthesised responses.
\<close>

theorem non_2xx_by_class:
  assumes "net (url req) = FetchResolved r" and "\<not> ok r"
    and "down (url req) = FetchRejected"
  shows "handleApiRequest net now cs req = handleApiRequest down now cs req
    \<and> (caches_match cs (url req) = None
          \<longrightarrow> handleStaticRequest net now cs req = (r, cs, [url req])
            \<and> fst (handleStaticRequest down now cs req)
                 \<in> {offline_page_response, unavailable_response})
    \<and> handleDynamicRequest net cs req = (r, cs, [url req])
    \<and> fst (handleDynamicRequest down cs req)
        = (case caches_match cs (url req) of
             Some e \<Rightarrow> e
           | None \<Rightarrow> unavailable_response)"
proof -
  have a: "handleApiRequest net now cs req = handleApiRequest down now cs req"
    using assms by (simp add: handleApiRequest_def api_try_def)
  have s: "caches_match cs (url req) = None
          \<longrightarrow> handleStaticRequest net now cs req = (r, cs, [url req])
            \<and> fst (handleStaticRequest down now cs req)
                 \<in> {offline_page_response, unavailable_response}"
    using assms by (simp add: handleStaticRequest_def static_try_def static_catch_def)
  have d: "handleDynamicRequest net cs req = (r, cs, [url req])"
    using assms by (simp add: handleDynamicRequest_def dynamic_try_def)
  have d': "fst (handleDynamicRequest down cs req)
        = (case caches_match cs (url req) of
             Some e \<Rightarrow> e
           | None \<Rightarrow> unavailable_response)"
    using assms
    by (simp add: handleDynamicRequest_def dynamic_try_def dynamic_catch_def
        split: option.splits)
  show ?thesis using a s d d' by blast
qed

theorem non_2xx_by_class_witness:
  "handleApiRequest (\<lambda>u. FetchResolved not_found) 1730090000000 [] styles_request
     = handleApiRequest (\<lambda>u. FetchRejected) 1730090000000 [] styles_request
   \<and> handleStaticRequest (\<lambda>u. FetchResolved not_found) 1730090000000 [] styles_request
     = (not_found, [], [url styles_request])
   \<and> handleDynamicRequest (\<lambda>u. FetchResolved not_found) [] styles_request
     = (not_found, [], [url styles_request])
   \<and> fst (handleDynamicRequest (\<lambda>u. FetchRejected) [] styles_request) = unavailable_response"
proof -
  have n: "(\<lambda>u. FetchResolved not_found) (url styles_request) = FetchResolved not_found"
    by simp
  have k: "\<not> ok not_found" by (simp add: ok_def not_found_def)
  have d: "(\<lambda>u. FetchRejected) (url styles_request) = FetchRejected" by simp
  have m: "caches_match [] (url styles_request) = None" by simp
  show ?thesis
    using non_2xx_by_class [OF n k d, of 1730090000000 "[]"] m by simp
qed

text \<open>
  Claim C5 as stated fails for the static class: on a cache miss a 404 response is
  handed to the caller, where a transport failure gives the synthesised 503
  response.
\<close>

theorem static_non_2xx_counterexample:
  "classify styles_request = Some Static
   \<and> \<not> ok not_found
   \<and> handleStaticRequest (\<lambda>u. FetchResolved not_found) 1730090000000 [] styles_request
       = (not_found, [], [url styles_request])
   \<and> handleStaticRequest (\<lambda>u. FetchRejected) 1730090000000 [] styles_request
       = (unavailable_response, [], [url styles_request])
   \<and> not_found \<noteq> unavailable_response"
proof -
  have c: "classify styles_request = Some Static"
    by (simp add: classify_def styles_request_def STATIC_CACHE_URLS_def)
  have k: "\<not> ok not_found" by (simp add: ok_def not_found_def)
  have a: "handleStaticRequest (\<lambda>u. FetchResolved not_found) 1730090000000 [] styles_request
       = (not_found, [], [url styles_request])"
    by (simp add: handleStaticRequest_def static_try_def k)
  have b: "handleStaticRequest (\<lambda>u. FetchRejected) 1730090000000 [] styles_request
       = (unavailable_response, [], [url styles_request])"
    by (simp add: handleStaticRequest_def static_try_def static_catch_def styles_request_def)
  have d: "not_found \<noteq> unavailable_response"
    by (simp add: not_found_def unavailable_response_def)
  show ?thesis using c k a b d by blast
qed

subsection \<open>Api requests\<close>

text \<open>
  Claim C6, as the code has it. When the fetch of an api request resolves with a
  2xx response, the handler resolves with that response whatever the cache holds,
  after exactly one fetch. The write to the api cache is not awaited: when the
  cache accepts the response (request URL of scheme http or https, status other
  than 206, no \<open>Vary: *\<close>), the api cache then holds, for the request URL, a copy
  with the same body and status whose \<open>sw-cache-timestamp\<close> header reads back as
  \<open>now\<close>; when the cache refuses it, the api cache keeps what it held.
\<close>

theorem api_success_overwrites_when_accepted:
  assumes "net (url req) = FetchResolved r" and "ok r"
  shows "fst (handleApiRequest net now cs req) = r
    \<and> snd (snd (handleApiRequest net now cs req)) = [url req]
    \<and> (\<not> put_refused (url req) r
        \<longrightarrow> cache_match (cache_of (fst (snd (handleApiRequest net now cs req))) API_CACHE)
              (url req) = Some (responseWithTimestamp r now))
    \<and> (put_refused (url req) r
        \<longrightarrow> cache_of (fst (snd (handleApiRequest net now cs req))) API_CACHE
              = cache_of cs API_CACHE)
    \<and> body (responseWithTimestamp r now) = body r
    \<and> status (responseWithTimestamp r now) = status r
    \<and> map_option parseInt (headers_get (hdrs (responseWithTimestamp r now)) ''sw-cache-timestamp'')
        = Some (Some now)"
proof -
  have h: "handleApiRequest net now cs req =
      (r, on_cache (caches_open cs API_CACHE) API_CACHE
            (\<lambda>cache. cache_put cache (url req) (responseWithTimestamp r now)),
       [url req])"
    using assms by (simp add: handleApiRequest_def api_try_def Let_def)
  have a: "\<not> put_refused (url req) r
        \<longrightarrow> cache_match (cache_of (fst (snd (handleApiRequest net now cs req))) API_CACHE)
              (url req) = Some (responseWithTimestamp r now)"
    by (simp add: h cache_of_on_open cache_match_put put_refused_timestamp)
  have b: "put_refused (url req) r
        \<longrightarrow> cache_of (fst (snd (handleApiRequest net now cs req))) API_CACHE
              = cache_of cs API_CACHE"
    by (simp add: h cache_of_on_open cache_put_refused put_refused_timestamp)
  have c: "body (responseWithTimestamp r now) = body r
    \<and> status (responseWithTimestamp r now) = status r
    \<and> map_option parseInt (headers_get (hdrs (responseWithTimestamp r now)) ''sw-cache-timestamp'')
        = Some (Some now)"
    by (simp add: responseWithTimestamp_def headers_get_set parseInt_toString)
  show ?thesis using a b c by (simp add: h)
qed

theorem api_success_overwrites_when_accepted_witness:
  "\<not> put_refused (url forecast_request) forecast_ok
   \<and> fst (handleApiRequest (\<lambda>u. FetchResolved forecast_ok) 1730000900000 api_storage
          forecast_request) = forecast_ok
   \<and> cache_match
        (cache_of (fst (snd (handleApiRequest (\<lambda>u. FetchResolved forecast_ok) 1730000900000
                               api_storage forecast_request))) API_CACHE)
        (url forecast_request) = Some (responseWithTimestamp forecast_ok 1730000900000)
   \<and> put_refused (url forecast_request) forecast_vary
   \<and> cache_of (fst (snd (handleApiRequest (\<lambda>u. FetchResolved forecast_vary) 1730000900000
                             api_storage forecast_request))) API_CACHE
       = cache_of api_storage API_CACHE"
proof -
  have k: "ok forecast_ok" by (simp add: ok_def forecast_ok_def)
  have n: "(\<lambda>u. FetchResolved forecast_ok) (url forecast_request) = FetchResolved forecast_ok"
    by simp
  have p: "\<not> put_refused (url forecast_request) forecast_ok"
    by (simp add: put_refused_def vary_star_def headers_get_def forecast_ok_def
        forecast_request_def)
  have k': "ok forecast_vary" by (simp add: ok_def forecast_vary_def)
  have n': "(\<lambda>u. FetchResolved forecast_vary) (url forecast_request)
      = FetchResolved forecast_vary"
    by simp
  have p': "put_refused (url forecast_request) forecast_vary"
    by (simp add: put_refused_def vary_star_def headers_get_def forecast_vary_def strip_ws_def)
  show ?thesis
    using p p' api_success_overwrites_when_accepted [OF n k, of 1730000900000 api_storage]
      api_success_overwrites_when_accepted [OF n' k', of 1730000900000 api_storage]
    by blast
qed

text \<open>
  Claim C6 as stated fails: a 200 response with \<open>Vary: *\<close>, and a 206 response,
  are returned to the caller, but the cache refuses them, and the api cache still
  holds the entry it held before, with the old body.
\<close>

theorem api_success_put_refused_counterexample:
  "ok forecast_vary
   \<and> ok forecast_partial
   \<and> cache_match (cache_of api_storage API_CACHE) (url forecast_request) = Some cached_forecast
   \<and> body cached_forecast \<noteq> body forecast_vary
   \<and> body cached_forecast \<noteq> body forecast_partial
   \<and> handleApiRequest (\<lambda>u. FetchResolved forecast_vary) 1730000900000 api_storage
        forecast_request = (forecast_vary, api_storage, [url forecast_request])
   \<and> handleApiRequest (\<lambda>u. FetchResolved forecast_partial) 1730000900000 api_storage
        forecast_request = (forecast_partial, api_storage, [url forecast_request])"
proof -
  have k: "ok forecast_vary" by (simp add: ok_def forecast_vary_def)
  have k': "ok forecast_partial" by (simp add: ok_def forecast_partial_def)
  have m: "cache_match (cache_of api_storage API_CACHE) (url forecast_request)
      = Some cached_forecast"
    by (simp add: api_storage_def cache_of_def cache_match_def forecast_request_def
        API_CACHE_def CACHE_NAME_def)
  have b: "body cached_forecast \<noteq> body forecast_vary"
    by (simp add: cached_forecast_def responseWithTimestamp_def forecast_ok_def
        forecast_vary_def)
  have b': "body cached_forecast \<noteq> body forecast_partial"
    by (simp add: cached_forecast_def responseWithTimestamp_def forecast_ok_def
        forecast_partial_def)
  have p: "put_refused (url forecast_request)
             (responseWithTimestamp forecast_vary 1730000900000)"
    unfolding put_refused_timestamp
    by (simp add: put_refused_def vary_star_def headers_get_def forecast_vary_def strip_ws_def)
  have p': "put_refused (url forecast_request)
              (responseWithTimestamp forecast_partial 1730000900000)"
    unfolding put_refused_timestamp
    by (simp add: put_refused_def forecast_partial_def)
  have s: "on_cache (caches_open api_storage API_CACHE) API_CACHE (\<lambda>cache. cache) = api_storage"
    by (simp add: on_cache_id caches_open_def caches_keys_def api_storage_def)
  have h: "handleApiRequest (\<lambda>u. FetchResolved forecast_vary) 1730000900000 api_storage
        forecast_request = (forecast_vary, api_storage, [url forecast_request])"
    by (simp add: handleApiRequest_def api_try_def Let_def k cache_put_refused [OF p] s)
  have h': "handleApiRequest (\<lambda>u. FetchResolved forecast_partial) 1730000900000 api_storage
        forecast_request = (forecast_partial, api_storage, [url forecast_request])"
    by (simp add: handleApiRequest_def api_try_def Let_def k' cache_put_refused [OF p'] s)
  show ?thesis using k k' m b b' h h' by blast
qed

text \<open>
  Claim C7. When the fetch of an api request rejects or resolves with a status
  that is not 2xx: an entry of the api cache whose age is at most
  \<open>API_CACHE_DURATION\<close> is returned; an older entry is deleted and the offline
  response is returned; with no entry the offline response is returned. The
  offline response has status 503 and a JSON body with \<open>"offline":true\<close> and an
  \<open>error\<close> field.
\<close>

theorem api_failure_fallback:
  assumes "net (url req) = FetchRejected \<or> (\<exists>r. net (url req) = FetchResolved r \<and> \<not> ok r)"
  shows \<open>(cache_match (cache_of cs API_CACHE) (url req) = Some e
          \<and> headers_get (hdrs e) ''sw-cache-timestamp'' = Some (toString storedAt)
          \<and> now - storedAt \<le> API_CACHE_DURATION
        \<longrightarrow> fst (handleApiRequest net now cs req) = e)
    \<and> (cache_match (cache_of cs API_CACHE) (url req) = Some e
          \<and> headers_get (hdrs e) ''sw-cache-timestamp'' = Some (toString storedAt)
          \<and> now - storedAt > API_CACHE_DURATION
        \<longrightarrow> fst (handleApiRequest net now cs req) = api_offline_response
            \<and> cache_match (cache_of (fst (snd (handleApiRequest net now cs req))) API_CACHE)
                 (url req) = None)
    \<and> (cache_match (cache_of cs API_CACHE) (url req) = None
        \<longrightarrow> fst (handleApiRequest net now cs req) = api_offline_response)
    \<and> status api_offline_response = 503
    \<and> str_includes (body api_offline_response) ''"offline":true''
    \<and> str_includes (body api_offline_response) ''"error":''\<close>
proof -
  have h: "handleApiRequest net now cs req = api_catch now cs req [url req]"
    using assms by (rule api_failure_catch)
  have 1: "cache_match (cache_of cs API_CACHE) (url req) = Some e
          \<and> headers_get (hdrs e) ''sw-cache-timestamp'' = Some (toString storedAt)
          \<and> now - storedAt \<le> API_CACHE_DURATION
        \<longrightarrow> fst (api_catch now cs req [url req]) = e"
    by (simp add: api_catch_def Let_def cache_of_open isExpired_toString)
  have 2: "cache_match (cache_of cs API_CACHE) (url req) = Some e
          \<and> headers_get (hdrs e) ''sw-cache-timestamp'' = Some (toString storedAt)
          \<and> now - storedAt > API_CACHE_DURATION
        \<longrightarrow> fst (api_catch now cs req [url req]) = api_offline_response
            \<and> cache_match (cache_of (fst (snd (api_catch now cs req [url req]))) API_CACHE)
                 (url req) = None"
    by (simp add: api_catch_def Let_def cache_of_open cache_of_on_open isExpired_toString
        cache_match_delete)
  have 3: "cache_match (cache_of cs API_CACHE) (url req) = None
        \<longrightarrow> fst (api_catch now cs req [url req]) = api_offline_response"
    by (simp add: api_catch_def Let_def cache_of_open)
  have 4: "status api_offline_response = 503" by (simp add: api_offline_response_def)
  have 5: \<open>str_includes (body api_offline_response) ''"offline":true''\<close>
    by (simp add: api_offline_response_def offline_json_def)
  have 6: \<open>str_includes (body api_offline_response) ''"error":''\<close>
    by (simp add: api_offline_response_def offline_json_def)
  show ?thesis unfolding h using 1 2 3 4 5 6 by blast
qed

theorem api_failure_fallback_witness:
  "fst (handleApiRequest (\<lambda>u. FetchRejected) 1730000600000 api_storage forecast_request)
     = cached_forecast
   \<and> fst (handleApiRequest (\<lambda>u. FetchRejected) 1730000600001 api_storage forecast_request)
     = api_offline_response
   \<and> cache_match
        (cache_of (fst (snd (handleApiRequest (\<lambda>u. FetchRejected) 1730000600001 api_storage
                               forecast_request))) API_CACHE)
        (url forecast_request) = None
   \<and> fst (handleApiRequest (\<lambda>u. FetchResolved not_found) 1730000600000 [] forecast_request)
     = api_offline_response"
proof -
  have f: "(\<lambda>u. FetchRejected) (url forecast_request) = FetchRejected
      \<or> (\<exists>r. (\<lambda>u. FetchRejected) (url forecast_request) = FetchResolved r \<and> \<not> ok r)"
    by simp
  have g: "(\<lambda>u. FetchResolved not_found) (url forecast_request) = FetchRejected
      \<or> (\<exists>r. (\<lambda>u. FetchResolved not_found) (url forecast_request) = FetchResolved r \<and> \<not> ok r)"
    by (simp add: ok_def not_found_def)
  have m: "cache_match (cache_of api_storage API_CACHE) (url forecast_request)
      = Some cached_forecast"
    by (simp add: api_storage_def cache_of_def cache_match_def forecast_request_def
        API_CACHE_def CACHE_NAME_def)
  have t: "headers_get (hdrs cached_forecast) ''sw-cache-timestamp''
      = Some (toString 1730000000000)"
    by (simp add: cached_forecast_def responseWithTimestamp_def headers_get_set)
  have e: "cache_match (cache_of [] API_CACHE) (url forecast_request) = None"
    by (simp add: cache_of_def cache_match_def)
  have d1: "(1730000600000::int) - 1730000000000 \<le> API_CACHE_DURATION"
    by (simp add: API_CACHE_DURATION_def)
  have d2: "(1730000600001::int) - 1730000000000 > API_CACHE_DURATION"
    by (simp add: API_CACHE_DURATION_def)
  show ?thesis
    using api_failure_fallback [OF f, of api_storage forecast_request cached_forecast
        1730000000000 1730000600000]
      api_failure_fallback [OF f, of api_storage forecast_request cached_forecast
        1730000000000 1730000600001]
      api_failure_fallback [OF g, of "[]" forecast_request cached_forecast
        1730000000000 1730000600000]
      m t e d1 d2
    by simp
qed

subsection \<open>Freshness\<close>

text \<open>
  Claim C8. Both freshness tests are strict: for an entry whose
  \<open>sw-cache-timestamp\<close> header was written at time \<open>storedAt\<close>, the api test
  \<open>isExpired\<close> holds exactly when \<open>now - storedAt > API_CACHE_DURATION\<close> and the
  static test \<open>shouldUpdate\<close> holds exactly when
  \<open>now - storedAt > STATIC_CACHE_DURATION\<close>; so an entry whose age equals the
  duration is still fresh, and one a millisecond older is expired.
\<close>

theorem freshness_strict:
  "isExpired (Some (toString storedAt)) now = (now - storedAt > API_CACHE_DURATION)
   \<and> shouldUpdate (Some (toString storedAt)) now = (now - storedAt > STATIC_CACHE_DURATION)
   \<and> \<not> isExpired (Some (toString storedAt)) (storedAt + API_CACHE_DURATION)
   \<and> isExpired (Some (toString storedAt)) (storedAt + API_CACHE_DURATION + 1)
   \<and> \<not> shouldUpdate (Some (toString storedAt)) (storedAt + STATIC_CACHE_DURATION)
   \<and> shouldUpdate (Some (toString storedAt)) (storedAt + STATIC_CACHE_DURATION + 1)"
  by (simp add: isExpired_toString shouldUpdate_toString)

subsection \<open>Lookups and namespaces\<close>

text \<open>
  Claim C10. The static handler, and the dynamic handler after a transport
  failure, return the first entry for the URL found in any cache of the storage,
  whatever the name of that cache; the api handler after a failure looks only in
  the api cache, and answers with the offline response when that cache has no
  entry even though another cache has one.
\<close>

theorem lookups_span_namespaces:
  assumes "cs = pre @ (n, c) # post"
    and "\<forall>(m, d) \<in> set pre. cache_match d (url req) = None"
    and "cache_match c (url req) = Some e"
  shows "fst (handleStaticRequest net now cs req) = e
    \<and> (net (url req) = FetchRejected \<longrightarrow> fst (handleDynamicRequest net cs req) = e)
    \<and> (net (url req) = FetchRejected \<and> cache_match (cache_of cs API_CACHE) (url req) = None
        \<longrightarrow> fst (handleApiRequest net now cs req) = api_offline_response)"
proof -
  have m: "caches_match cs (url req) = Some e"
    unfolding assms(1) using assms(2,3) by (rule caches_match_first)
  have s: "fst (handleStaticRequest net now cs req) = e"
    using m by (simp add: handleStaticRequest_def static_try_def static_catch_def)
  have d: "net (url req) = FetchRejected \<longrightarrow> fst (handleDynamicRequest net cs req) = e"
    using m by (simp add: handleDynamicRequest_def dynamic_try_def dynamic_catch_def)
  have a: "net (url req) = FetchRejected \<and> cache_match (cache_of cs API_CACHE) (url req) = None
        \<longrightarrow> fst (handleApiRequest net now cs req) = api_offline_response"
    by (simp add: handleApiRequest_def api_try_def api_catch_def Let_def cache_of_open)
  show ?thesis using s d a by blast
qed

theorem lookups_span_namespaces_witness:
  "fst (handleStaticRequest (\<lambda>u. FetchRejected) 1730090000000 dynamic_storage styles_request)
     = new_styles
   \<and> fst (handleDynamicRequest (\<lambda>u. FetchRejected) dynamic_storage styles_request) = new_styles
   \<and> fst (handleApiRequest (\<lambda>u. FetchRejected) 1730090000000 dynamic_storage styles_request)
     = api_offline_response"
proof -
  have c: "dynamic_storage = [(CACHE_NAME, [])]
      @ (DYNAMIC_CACHE, [(''https://weatherflow.app/styles.css'', new_styles)]) # []"
    by (simp add: dynamic_storage_def)
  have p: "\<forall>(m, d) \<in> set [(CACHE_NAME, [])]. cache_match d (url styles_request) = None"
    by (simp add: cache_match_def)
  have h: "cache_match [(''https://weatherflow.app/styles.css'', new_styles)]
      (url styles_request) = Some new_styles"
    by (simp add: cache_match_def styles_request_def)
  have a: "cache_match (cache_of dynamic_storage API_CACHE) (url styles_request) = None"
    by (simp add: dynamic_storage_def cache_of_def cache_match_def API_CACHE_def
        DYNAMIC_CACHE_def CACHE_NAME_def)
  show ?thesis
    using lookups_span_namespaces [OF c p h, of "\<lambda>u. FetchRejected" 1730090000000] a
    by simp
qed

end
